theory Spec2Isabelle
  imports Complex_Main
begin

section \<open>MMM-Multi-Wind: conventions of the embedding\<close>

text \<open>
  The module has a browser part (\<^verbatim>\<open>MMM-Multi-Wind.js\<close>) and a server part
  (\<^verbatim>\<open>node_helper.js\<close>). Both are embedded function by function. The source file of
  the browser part holds version 2.1.0 and, after it, the older version 1.0.0; the
  embedding follows 2.1.0.

  \<^item> A finite JavaScript number is modelled by the real number it denotes, and a decimal
    literal of the source by its decimal value. \<^verbatim>\<open>Infinity\<close> appears in one table
    and gets a constructor of its own there.
  \<^item> A thrown exception is the left summand of a sum type.
  \<^item> \<^verbatim>\<open>undefined\<close> is \<open>None\<close> of an option type.
\<close>

datatype js_error = Error string | TypeError string

section \<open>Presentation classifier: speed\<close>

datatype bound = Fin real | Infinity

text \<open>The comparison \<^verbatim>\<open>speed <= scale.max\<close>.\<close>

fun le_bound :: "real \<Rightarrow> bound \<Rightarrow> bool" where
  "le_bound x (Fin m) = (x \<le> m)"
| "le_bound x Infinity = True"

record scale =
  max_speed :: bound
  force :: nat

definition beaufortScale :: "scale list" where
  "beaufortScale =
    [\<lparr>max_speed = Fin 0.2, force = 0\<rparr>,
     \<lparr>max_speed = Fin 1.5, force = 1\<rparr>,
     \<lparr>max_speed = Fin 3.3, force = 2\<rparr>,
     \<lparr>max_speed = Fin 5.4, force = 3\<rparr>,
     \<lparr>max_speed = Fin 7.9, force = 4\<rparr>,
     \<lparr>max_speed = Fin 10.7, force = 5\<rparr>,
     \<lparr>max_speed = Fin 13.8, force = 6\<rparr>,
     \<lparr>max_speed = Fin 17.1, force = 7\<rparr>,
     \<lparr>max_speed = Fin 20.7, force = 8\<rparr>,
     \<lparr>max_speed = Fin 24.4, force = 9\<rparr>,
     \<lparr>max_speed = Fin 28.4, force = 10\<rparr>,
     \<lparr>max_speed = Fin 32.6, force = 11\<rparr>,
     \<lparr>max_speed = Infinity, force = 12\<rparr>]"

text \<open>
  \<^verbatim>\<open>beaufortScale.find(scale => speed <= scale.max).force\<close>: \<^verbatim>\<open>find\<close> gives
  \<^verbatim>\<open>undefined\<close> when no entry matches, and reading \<^verbatim>\<open>.force\<close> of it throws.
\<close>

definition getBeaufortForce :: "real \<Rightarrow> js_error + nat" where
  "getBeaufortForce speed =
     (case List.find (\<lambda>scale. le_bound speed (max_speed scale)) beaufortScale of
        None \<Rightarrow> Inl (TypeError ''Cannot read properties of undefined (reading force)'')
      | Some scale \<Rightarrow> Inr (force scale))"

text \<open>The twelve finite ceilings of the Beaufort table, as the specification lists them.\<close>

definition ceilings :: "real list" where
  "ceilings = [0.2, 1.5, 3.3, 5.4, 7.9, 10.7, 13.8, 17.1, 20.7, 24.4, 28.4, 32.6]"

section \<open>Module configuration\<close>

text \<open>
  The payload of a \<^verbatim>\<open>GET_WIND_DATA\<close> request carries four fields of the configuration;
  the configuration is modelled as an extension of it. Coordinates are numbers, intervals
  are milliseconds. \<open>defaults\<close> is the \<^verbatim>\<open>defaults\<close> object of the module.
\<close>

record request =
  lat :: real
  lon :: real
  provider :: string
  altitude :: int

record config = request +
  updateInterval :: int
  animationSpeed :: int
  directionType :: string
  displayType :: string
  iconOnly :: bool
  language :: string
  layout :: string
  retryDelay :: int
  maxRetries :: int

definition defaults :: config where
  "defaults = \<lparr>lat = 57.7089, lon = 11.9746, provider = ''smhi'', altitude = 0,
     updateInterval = 30 * 60 * 1000, animationSpeed = 1000,
     directionType = ''compass'', displayType = ''textsea'', iconOnly = False,
     language = ''en'', layout = ''vertical'',
     retryDelay = 2000, maxRetries = 3\<rparr>"

definition validateConfig :: "config \<Rightarrow> config" where
  "validateConfig cfg =
     (let c1 = cfg\<lparr>lat := min (max (lat cfg) (- 90)) 90\<rparr>;
          c2 = c1\<lparr>lon := min (max (lon c1) (- 180)) 180\<rparr>;
          c3 = (if provider c2 \<notin> set [''smhi'', ''yr''] then c2\<lparr>provider := ''smhi''\<rparr> else c2)
      in if language c3 \<notin> set [''en'', ''sv'', ''da'', ''no'', ''fi'', ''is'']
         then c3\<lparr>language := ''en''\<rparr> else c3)"

section \<open>Presentation classifier: direction\<close>

text \<open>
  The remainder operator \<^verbatim>\<open>%\<close> takes the sign of the dividend: the quotient is
  truncated toward zero.
\<close>

definition trunc :: "real \<Rightarrow> int" where
  "trunc x = (if 0 \<le> x then \<lfloor>x\<rfloor> else - \<lfloor>- x\<rfloor>)"

definition js_rem :: "real \<Rightarrow> real \<Rightarrow> real" where
  "js_rem a n = a - n * of_int (trunc (a / n))"

text \<open>\<^verbatim>\<open>((degrees % 360) + 360) % 360\<close>, written twice in the source.\<close>

definition normalizedDegrees :: "real \<Rightarrow> real" where
  "normalizedDegrees degrees = js_rem (js_rem degrees 360 + 360) 360"

definition getDirectionIcon :: "real \<Rightarrow> string" where
  "getDirectionIcon degrees =
    (if degrees = 0 then ''wi-na''
     else let n = normalizedDegrees degrees in
       if n > 337.5 \<or> n \<le> 22.5 then ''wi-direction-down''
       else if n \<le> 67.5 then ''wi-direction-down-left''
       else if n \<le> 112.5 then ''wi-direction-left''
       else if n \<le> 157.5 then ''wi-direction-up-left''
       else if n \<le> 202.5 then ''wi-direction-up''
       else if n \<le> 247.5 then ''wi-direction-up-right''
       else if n \<le> 292.5 then ''wi-direction-right''
       else if n \<le> 337.5 then ''wi-direction-down-right''
       else ''wi-na'')"

record direction =
  min_deg :: real
  max_deg :: real
  dir :: string

definition directions :: "direction list" where
  "directions =
    [\<lparr>min_deg = 337.5, max_deg = 22.5, dir = ''N''\<rparr>,
     \<lparr>min_deg = 22.5, max_deg = 67.5, dir = ''NE''\<rparr>,
     \<lparr>min_deg = 67.5, max_deg = 112.5, dir = ''E''\<rparr>,
     \<lparr>min_deg = 112.5, max_deg = 157.5, dir = ''SE''\<rparr>,
     \<lparr>min_deg = 157.5, max_deg = 202.5, dir = ''S''\<rparr>,
     \<lparr>min_deg = 202.5, max_deg = 247.5, dir = ''SW''\<rparr>,
     \<lparr>min_deg = 247.5, max_deg = 292.5, dir = ''W''\<rparr>,
     \<lparr>min_deg = 292.5, max_deg = 337.5, dir = ''NW''\<rparr>]"

text \<open>
  What the module writes as text: a string literal of the source, the translation
  \<^verbatim>\<open>this.translate(key)\<close> of a key (the translation files are not part of the
  sources, so the key stands for its translation), or \<^verbatim>\<open>degrees + "\<degree>"\<close>.
\<close>

datatype label = Plain string | Translated string | DegreesText real

definition getWindDirection :: "config \<Rightarrow> real \<Rightarrow> label" where
  "getWindDirection cfg degrees =
    (if degrees = 0 then Plain ''N/A''
     else if directionType cfg = ''compass'' then
       let n = normalizedDegrees degrees;
           direction = List.find (\<lambda>d.
              (min_deg d < max_deg d \<and> n \<ge> min_deg d \<and> n < max_deg d) \<or>
              (min_deg d > max_deg d \<and> (n \<ge> min_deg d \<or> n < max_deg d))) directions
       in Translated (case direction of Some d \<Rightarrow> dir d | None \<Rightarrow> ''N'')
     else DegreesText degrees)"

text \<open>
  The icon that \<^const>\<open>getDirectionIcon\<close> returns in the interior of each compass octant:
  its chain of comparisons walks the octants clockwise from north, as the table
  \<^const>\<open>directions\<close> does.
\<close>

definition octantIcon :: "string \<Rightarrow> string" where
  "octantIcon s =
    (if s = ''N'' then ''wi-direction-down''
     else if s = ''NE'' then ''wi-direction-down-left''
     else if s = ''E'' then ''wi-direction-left''
     else if s = ''SE'' then ''wi-direction-up-left''
     else if s = ''S'' then ''wi-direction-up''
     else if s = ''SW'' then ''wi-direction-up-right''
     else if s = ''W'' then ''wi-direction-right''
     else if s = ''NW'' then ''wi-direction-down-right''
     else ''wi-na'')"

text \<open>The eight octant boundaries 22.5 + 45 k.\<close>

definition boundaries :: "real set" where
  "boundaries = {22.5, 67.5, 112.5, 157.5, 202.5, 247.5, 292.5, 337.5}"

section \<open>Node helper: JSON documents and property access\<close>

text \<open>
  The value of \<^verbatim>\<open>JSON.parse\<close>. An object keeps its members in document order; where a
  key is repeated the last member wins, as in \<^verbatim>\<open>JSON.parse\<close>. A value that may also
  be \<^verbatim>\<open>undefined\<close> is a \<open>jsval\<close>.
\<close>

datatype json = JNull | JBool bool | JNum real | JStr string | JArr "json list"
  | JObj "(string \<times> json) list"

type_synonym jsval = "json option"

text \<open>
  Reading the property \<open>k\<close> of a value that is neither \<^verbatim>\<open>null\<close> nor
  \<^verbatim>\<open>undefined\<close>. The keys that the parsers read from a value that may be an array, a
  string, a number or a boolean (\<^verbatim>\<open>properties\<close>, \<^verbatim>\<open>timeseries\<close>, \<^verbatim>\<open>timeSeries\<close>,
  \<^verbatim>\<open>data\<close>, \<^verbatim>\<open>instant\<close>, \<^verbatim>\<open>details\<close>, \<^verbatim>\<open>parameters\<close>, \<^verbatim>\<open>name\<close>,
  \<^verbatim>\<open>wind_speed\<close>, \<^verbatim>\<open>wind_from_direction\<close>) are not properties of the built-in
  prototypes, so only an object can have them. \<^verbatim>\<open>values\<close> is read only from a value
  whose \<^verbatim>\<open>name\<close> is a string, which is an object.
\<close>

fun getProp :: "json \<Rightarrow> string \<Rightarrow> jsval" where
  "getProp (JObj kvs) k = map_of (rev kvs) k"
| "getProp v k = None"

text \<open>Reading index 0: the first element of an array, the first character of a string,
  the member \<^verbatim>\<open>"0"\<close> of an object.\<close>

fun getIndex0 :: "json \<Rightarrow> jsval" where
  "getIndex0 (JArr xs) = (case xs of [] \<Rightarrow> None | x # _ \<Rightarrow> Some x)"
| "getIndex0 (JObj kvs) = map_of (rev kvs) ''0''"
| "getIndex0 (JStr s) = (case s of [] \<Rightarrow> None | c # _ \<Rightarrow> Some (JStr [c]))"
| "getIndex0 v = None"

text \<open>Optional chaining, \<^verbatim>\<open>v?.k\<close> and \<^verbatim>\<open>v?.[0]\<close>.\<close>

fun optProp :: "jsval \<Rightarrow> string \<Rightarrow> jsval" where
  "optProp None k = None"
| "optProp (Some JNull) k = None"
| "optProp (Some v) k = getProp v k"

fun optIndex0 :: "jsval \<Rightarrow> jsval" where
  "optIndex0 None = None"
| "optIndex0 (Some JNull) = None"
| "optIndex0 (Some v) = getIndex0 v"

text \<open>Plain access, \<^verbatim>\<open>v.k\<close> and \<^verbatim>\<open>v[0]\<close>, which throws on \<^verbatim>\<open>null\<close> and
  \<^verbatim>\<open>undefined\<close>.\<close>

fun dotProp :: "jsval \<Rightarrow> string \<Rightarrow> js_error + jsval" where
  "dotProp None k = Inl (TypeError ''Cannot read properties of undefined'')"
| "dotProp (Some JNull) k = Inl (TypeError ''Cannot read properties of null'')"
| "dotProp (Some v) k = Inr (getProp v k)"

fun dotIndex0 :: "jsval \<Rightarrow> js_error + jsval" where
  "dotIndex0 None = Inl (TypeError ''Cannot read properties of undefined'')"
| "dotIndex0 (Some JNull) = Inl (TypeError ''Cannot read properties of null'')"
| "dotIndex0 (Some v) = Inr (getIndex0 v)"

text \<open>The truth value that \<^verbatim>\<open>!v\<close> negates, and \<^verbatim>\<open>typeof v === 'number'\<close>.\<close>

fun truthy :: "jsval \<Rightarrow> bool" where
  "truthy None = False"
| "truthy (Some JNull) = False"
| "truthy (Some (JBool b)) = b"
| "truthy (Some (JNum x)) = (x \<noteq> 0)"
| "truthy (Some (JStr s)) = (s \<noteq> [])"
| "truthy (Some (JArr xs)) = True"
| "truthy (Some (JObj kvs)) = True"

fun isNumber :: "jsval \<Rightarrow> bool" where
  "isNumber (Some (JNum x)) = True"
| "isNumber v = False"

text \<open>Sequencing of statements that may throw.\<close>

fun andThen :: "'e + 'a \<Rightarrow> ('a \<Rightarrow> 'e + 'b) \<Rightarrow> 'e + 'b" where
  "andThen (Inl e) f = Inl e"
| "andThen (Inr x) f = f x"

section \<open>Node helper: the provider parsers\<close>

text \<open>The object that a parser returns and that travels as payload of \<^verbatim>\<open>WIND_DATA\<close>.\<close>

record wind_data =
  windSpeed :: jsval
  windDirection :: jsval

definition parseYrData :: "json \<Rightarrow> js_error + wind_data" where
  "parseYrData data =
    (if \<not> truthy (optProp (optProp (optProp (optIndex0 (optProp (optProp (Some data)
          ''properties'') ''timeseries'')) ''data'') ''instant'') ''details'')
     then Inl (Error ''Invalid YR data structure'')
     else
       andThen (dotProp (Some data) ''properties'') (\<lambda>properties.
       andThen (dotProp properties ''timeseries'') (\<lambda>timeseries.
       andThen (dotIndex0 timeseries) (\<lambda>entry.
       andThen (dotProp entry ''data'') (\<lambda>d.
       andThen (dotProp d ''instant'') (\<lambda>instant.
       andThen (dotProp instant ''details'') (\<lambda>details.
       andThen (dotProp details ''wind_speed'') (\<lambda>wind_speed.
       andThen (dotProp details ''wind_from_direction'') (\<lambda>wind_from_direction.
         Inr \<lparr>windSpeed = wind_speed, windDirection = wind_from_direction\<rparr>)))))))))"

text \<open>The callback \<^verbatim>\<open>p => p.name === n\<close>, and \<^verbatim>\<open>Array.prototype.find\<close> with a
  callback that may throw.\<close>

definition hasName :: "string \<Rightarrow> json \<Rightarrow> js_error + bool" where
  "hasName n p = andThen (dotProp (Some p) ''name'') (\<lambda>v. Inr (v = Some (JStr n)))"

fun findM :: "(json \<Rightarrow> js_error + bool) \<Rightarrow> json list \<Rightarrow> js_error + jsval" where
  "findM f [] = Inr None"
| "findM f (x # xs) =
     (case f x of Inl e \<Rightarrow> Inl e | Inr b \<Rightarrow> if b then Inr (Some x) else findM f xs)"

text \<open>The method call \<^verbatim>\<open>v.find(f)\<close>: only an array has a callable \<^verbatim>\<open>find\<close>.\<close>

fun callFind :: "jsval \<Rightarrow> (json \<Rightarrow> js_error + bool) \<Rightarrow> js_error + jsval" where
  "callFind None f = Inl (TypeError ''Cannot read properties of undefined'')"
| "callFind (Some JNull) f = Inl (TypeError ''Cannot read properties of null'')"
| "callFind (Some (JArr xs)) f = findM f xs"
| "callFind (Some v) f = Inl (TypeError ''find is not a function'')"

definition parseSmhiData :: "json \<Rightarrow> js_error + wind_data" where
  "parseSmhiData data =
    (if \<not> truthy (optProp (optIndex0 (optProp (Some data) ''timeSeries'')) ''parameters'')
     then Inl (Error ''Invalid SMHI data structure'')
     else
       andThen (dotProp (Some data) ''timeSeries'') (\<lambda>timeSeries.
       andThen (dotIndex0 timeSeries) (\<lambda>currentData.
       andThen (dotProp currentData ''parameters'') (\<lambda>parameters.
       andThen (callFind parameters (hasName ''ws'')) (\<lambda>ws.
       andThen (dotProp currentData ''parameters'') (\<lambda>parameters'.
       andThen (callFind parameters' (hasName ''wd'')) (\<lambda>wd.
         let windSpeed = optIndex0 (optProp ws ''values'');
             windDirection = optIndex0 (optProp wd ''values'')
         in if \<not> isNumber windSpeed \<or> \<not> isNumber windDirection
            then Inl (Error ''Missing wind parameters'')
            else Inr \<lparr>windSpeed = windSpeed, windDirection = windDirection\<rparr>)))))))"

text \<open>\<^verbatim>\<open>parseProviderData\<close> logs and rethrows what the parser throws.\<close>

definition parseProviderData :: "json \<Rightarrow> string \<Rightarrow> js_error + wind_data" where
  "parseProviderData data provider' =
     (if provider' = ''yr'' then parseYrData data else parseSmhiData data)"

text \<open>
  The vocabulary of the specification: the details block of a YR document
  (\<^verbatim>\<open>properties.timeseries[0].data.instant.details\<close>); for an SMHI document the parameter
  sequence \<^verbatim>\<open>timeSeries[0].parameters\<close>, a parameter named \<open>n\<close>, and the first value of a
  parameter.
\<close>

definition yrDetails :: "json \<Rightarrow> jsval" where
  "yrDetails data = optProp (optProp (optProp (optIndex0 (optProp (optProp (Some data)
          ''properties'') ''timeseries'')) ''data'') ''instant'') ''details''"

definition smhiParameters :: "json \<Rightarrow> jsval" where
  "smhiParameters data = optProp (optIndex0 (optProp (Some data) ''timeSeries'')) ''parameters''"

definition named :: "string \<Rightarrow> json \<Rightarrow> bool" where
  "named n p = (getProp p ''name'' = Some (JStr n))"

definition firstValue :: "json \<Rightarrow> jsval" where
  "firstValue p = optIndex0 (optProp (Some p) ''values'')"

text \<open>Sample documents, shaped as the two providers answer.\<close>

definition yr_doc :: "(string \<times> json) list \<Rightarrow> json" where
  "yr_doc details = JObj [(''type'', JStr ''Feature''), (''properties'', JObj [(''timeseries'',
     JArr [JObj [(''time'', JStr ''2024-01-05T12:00:00Z''),
                 (''data'', JObj [(''instant'', JObj [(''details'', JObj details)])])]])])]"

definition smhi_doc :: "json list \<Rightarrow> json" where
  "smhi_doc ps = JObj [(''approvedTime'', JStr ''2024-01-05T12:00:00Z''),
     (''timeSeries'', JArr [JObj [(''validTime'', JStr ''2024-01-05T13:00:00Z''),
        (''parameters'', JArr ps)]])]"

definition param :: "string \<Rightarrow> json list \<Rightarrow> json" where
  "param n vs = JObj [(''name'', JStr n), (''levelType'', JStr ''hl''), (''level'', JNum 10),
      (''values'', JArr vs)]"

section \<open>Node helper: the provider URL\<close>

text \<open>The decimal digits of a natural number.\<close>

definition digitChars :: string where
  "digitChars = ''0123456789''"

fun digits :: "nat \<Rightarrow> string" where
  "digits n = (if n < 10 then [digitChars ! n]
               else digits (n div 10) @ [digitChars ! (n mod 10)])"

declare digits.simps [simp del]







section \<open>Node helper: one acquisition\<close>

text \<open>
  What \<^verbatim>\<open>getWindData\<close> does once the request has an outcome. The handlers it registers
  are the response callback, \<^verbatim>\<open>data\<close> and \<^verbatim>\<open>end\<close> on the response, and \<^verbatim>\<open>error\<close> and
  \<^verbatim>\<open>timeout\<close> on the request; an outcome is a sequence of events that reaches them:
  \<^item> \<open>Response\<close>: a response arrives and its body ends; the arguments are the status code
    and the chunks of the body.
  \<^item> \<open>ResponseUnfinished\<close>: a response arrives and the connection is lost before the body
    ends. The response callback has run, \<^verbatim>\<open>end\<close> never fires, and no handler is
    registered for the response's own \<^verbatim>\<open>aborted\<close>, \<^verbatim>\<open>error\<close> or \<^verbatim>\<open>close\<close>.
  \<^item> \<open>RequestError\<close>: the request emits \<^verbatim>\<open>error\<close> before any response.
  \<^item> \<open>RequestTimeout\<close>: the request emits \<^verbatim>\<open>timeout\<close> before any response. The handler
    calls \<^verbatim>\<open>request.abort()\<close> and sends its notification; the abort makes the request
    emit \<^verbatim>\<open>error\<close>, so the \<^verbatim>\<open>error\<close> handler runs as well and sends a second one.
  \<^verbatim>\<open>JSON.parse\<close> is a parameter. Console output is left out.
\<close>

datatype outcome = Response int "string list" | ResponseUnfinished int "string list"
  | RequestError string | RequestTimeout

datatype helper_effect = SendSocketNotification string "wind_data option" | Resume | Abort

definition getWindData ::
  "(string \<Rightarrow> js_error + json) \<Rightarrow> request \<Rightarrow> outcome \<Rightarrow> helper_effect list" where
  "getWindData JSON_parse config' out =
    (let provider' = (if provider config' = [] then ''smhi'' else provider config')
     in case out of
          Response statusCode chunks \<Rightarrow>
            if statusCode \<noteq> 200
            then [Resume, SendSocketNotification ''WIND_DATA_ERROR'' None]
            else
              let rawData = concat chunks
              in (case andThen (JSON_parse rawData)
                         (\<lambda>jsonData. parseProviderData jsonData provider') of
                    Inr windData' \<Rightarrow> [SendSocketNotification ''WIND_DATA'' (Some windData')]
                  | Inl e \<Rightarrow> [SendSocketNotification ''WIND_DATA_ERROR'' None])
        | ResponseUnfinished statusCode chunks \<Rightarrow>
            if statusCode \<noteq> 200
            then [Resume, SendSocketNotification ''WIND_DATA_ERROR'' None]
            else []
        | RequestError msg \<Rightarrow> [SendSocketNotification ''WIND_DATA_ERROR'' None]
        | RequestTimeout \<Rightarrow>
            [Abort, SendSocketNotification ''WIND_DATA_ERROR'' None,
             SendSocketNotification ''WIND_DATA_ERROR'' None])"

text \<open>The notifications among the effects.\<close>

fun notifications :: "helper_effect list \<Rightarrow> (string \<times> wind_data option) list" where
  "notifications [] = []"
| "notifications (SendSocketNotification n p # es) = (n, p) # notifications es"
| "notifications (e # es) = notifications es"

section \<open>Module: state, requests and notifications\<close>

text \<open>
  The mutable fields of the module that the scheduler and the renderer use
  (\<^verbatim>\<open>lastUpdateTime\<close> is written and never read). What a method does besides updating
  them is a list of effects: a request to the node helper, a retry timer, a redraw.
\<close>

record module_state =
  loaded :: bool
  windData :: "wind_data option"
  retryCount :: int

datatype module_effect = SendGetWindData request | SetTimeout int | UpdateDom int

definition initial_state :: module_state where
  "initial_state = \<lparr>loaded = False, windData = None, retryCount = 0\<rparr>"

definition getData :: "config \<Rightarrow> module_state \<Rightarrow> module_effect list" where
  "getData cfg s =
     (if retryCount s \<ge> maxRetries cfg then []
      else [SendGetWindData \<lparr>lat = lat cfg, lon = lon cfg, provider = provider cfg,
                              altitude = altitude cfg\<rparr>])"

definition socketNotificationReceived ::
  "config \<Rightarrow> string \<Rightarrow> wind_data option \<Rightarrow> module_state \<Rightarrow> module_state \<times> module_effect list" where
  "socketNotificationReceived cfg notification payload s =
     (if notification = ''WIND_DATA''
      then (s\<lparr>loaded := True, windData := payload, retryCount := 0\<rparr>,
            [UpdateDom (animationSpeed cfg)])
      else if notification = ''WIND_DATA_ERROR''
      then
        let s' = s\<lparr>loaded := True, windData := None, retryCount := retryCount s + 1\<rparr>
        in (s', (if retryCount s' < maxRetries cfg then [SetTimeout (retryDelay cfg)] else [])
                @ [UpdateDom (animationSpeed cfg)])
      else (s, []))"

text \<open>
  \<^verbatim>\<open>getDom\<close>: the wrapper's class and content. The two early returns are a translated
  message; the third case stands for the two elements built from the observation.
\<close>

datatype dom = Message string label | WindDisplay string wind_data

definition getDom :: "config \<Rightarrow> module_state \<Rightarrow> dom" where
  "getDom cfg s =
     (if \<not> loaded s then Message ''dimmed light small'' (Translated ''LOADING'')
      else case windData s of
             None \<Rightarrow> Message ''dimmed light small'' (Translated ''ERROR'')
           | Some wd \<Rightarrow> WindDisplay (''small wind-'' @ layout cfg) wd)"

section \<open>Module: the scheduler as a transition system\<close>

text \<open>
  The module together with what is pending around it: the requests that the node helper
  is working on, the notifications that the helper has sent and the module has not yet
  received, and the retry timers armed and not yet fired. An event is a firing of the
  periodic timer, a firing of a retry timer, the end of one pending request with some
  outcome (the notifications that \<^const>\<open>getWindData\<close> sends for it join the queue), or the
  receipt of the first queued notification, which \<^const>\<open>socketNotificationReceived\<close>
  handles whatever the state. An event that is not enabled (a retry firing with no timer
  armed, an outcome with no request pending, a receipt with nothing queued) leaves the
  world as it is. \<open>start\<close> is the world after \<^verbatim>\<open>start()\<close>, which calls \<^verbatim>\<open>getData\<close> once at
  once.
\<close>

record world =
  st :: module_state
  inflight :: nat
  queued :: "(string \<times> wind_data option) list"
  timers :: nat

datatype event = Tick | RetryFire | Finish outcome | Deliver

fun perform :: "module_effect list \<Rightarrow> world \<Rightarrow> world" where
  "perform [] w = w"
| "perform (SendGetWindData r # es) w = perform es (w\<lparr>inflight := Suc (inflight w)\<rparr>)"
| "perform (SetTimeout d # es) w = perform es (w\<lparr>timers := Suc (timers w)\<rparr>)"
| "perform (UpdateDom d # es) w = perform es w"

fun step :: "(string \<Rightarrow> js_error + json) \<Rightarrow> config \<Rightarrow> event \<Rightarrow> world \<Rightarrow> world" where
  "step JSON_parse cfg Tick w = perform (getData cfg (st w)) w"
| "step JSON_parse cfg RetryFire w =
     (if timers w = 0 then w
      else perform (getData cfg (st w)) (w\<lparr>timers := timers w - 1\<rparr>))"
| "step JSON_parse cfg (Finish out) w =
     (if inflight w = 0 then w
      else w\<lparr>inflight := inflight w - 1,
             queued := queued w @ notifications (getWindData JSON_parse
               \<lparr>lat = lat cfg, lon = lon cfg, provider = provider cfg, altitude = altitude cfg\<rparr>
               out)\<rparr>)"
| "step JSON_parse cfg Deliver w =
     (case queued w of
        [] \<Rightarrow> w
      | (notification, payload) # rest \<Rightarrow>
          (case socketNotificationReceived cfg notification payload (st w) of
             (s', es) \<Rightarrow> perform es (w\<lparr>st := s', queued := rest\<rparr>)))"

definition start :: "config \<Rightarrow> world" where
  "start cfg = perform (getData cfg initial_state)
     \<lparr>st = initial_state, inflight = 0, queued = [], timers = 0\<rparr>"

fun run :: "(string \<Rightarrow> js_error + json) \<Rightarrow> config \<Rightarrow> event list \<Rightarrow> world \<Rightarrow> world" where
  "run JSON_parse cfg [] w = w"
| "run JSON_parse cfg (e # es) w = run JSON_parse cfg es (step JSON_parse cfg e w)"

text \<open>The worlds that a run passes through, the first and the last included.\<close>

fun visited ::
  "(string \<Rightarrow> js_error + json) \<Rightarrow> config \<Rightarrow> event list \<Rightarrow> world \<Rightarrow> world list" where
  "visited JSON_parse cfg [] w = [w]"
| "visited JSON_parse cfg (e # es) w = w # visited JSON_parse cfg es (step JSON_parse cfg e w)"

text \<open>A \<^verbatim>\<open>JSON.parse\<close> that rejects every body, for runs in which no body is parsed.\<close>

definition rejectAll :: "string \<Rightarrow> js_error + json" where
  "rejectAll body = Inl (Error ''Unexpected end of JSON input'')"

text \<open>
  Event sequences used below. \<open>failed\<close>: a pending request fails with a request error and
  the module receives the notification. \<open>threeFailures\<close>: the first attempt and two retries
  fail in a row. \<open>timedOutThird\<close>: two such failures, then the third request times out and
  the module receives both notifications of the timeout. \<open>overlapping\<close>: three ticks while
  the first request is pending, then the four requests fail.
\<close>

definition failed :: "event list" where
  "failed = [Finish (RequestError ''ECONNRESET''), Deliver]"

definition threeFailures :: "event list" where
  "threeFailures = failed @ [RetryFire] @ failed @ [RetryFire] @ failed"

definition timedOutThird :: "event list" where
  "timedOutThird = failed @ [RetryFire] @ failed @ [RetryFire]
     @ [Finish RequestTimeout, Deliver, Deliver]"



section \<open>Properties\<close>

lemma all_less_Suc_conv: "(\<forall>j<Suc k. P j) \<longleftrightarrow> P k \<and> (\<forall>j<k. P j)"
  by (auto simp: less_Suc_eq)

subsection \<open>Beaufort classification\<close>

text \<open>
  C4. For every speed \<open>s\<close> (in particular every \<open>s \<ge> 0\<close>) the Beaufort classifier returns,
  without throwing, a force \<open>k \<le> 12\<close> such that every ceiling before position \<open>k\<close> is
  below \<open>s\<close> and, when \<open>k < 12\<close>, the ceiling at position \<open>k\<close> is at least \<open>s\<close>; force 12 is
  returned exactly for speeds above 32.6. So the force is the position of the first
  ceiling, scanning from the lowest, that \<open>s\<close> does not exceed. The four boundary values of
  the specification are as stated: 0.2 gives 0, 0.3 gives 1, 32.6 gives 11, 32.7 gives 12.
\<close>

theorem getBeaufortForce_first_bucket:
  "(\<exists>k\<le>12. getBeaufortForce s = Inr k \<and> (\<forall>j<k. ceilings ! j < s)
      \<and> (if k < 12 then s \<le> ceilings ! k else 32.6 < s))
   \<and> getBeaufortForce 0.2 = Inr 0 \<and> getBeaufortForce 0.3 = Inr 1
   \<and> getBeaufortForce 32.6 = Inr 11 \<and> getBeaufortForce 32.7 = Inr 12"
  unfolding getBeaufortForce_def beaufortScale_def ceilings_def
  by (simp add: numeral_eq_Suc all_less_Suc_conv)

theorem getBeaufortForce_first_bucket_witness:
  "getBeaufortForce 17 = Inr 7 \<and> ceilings ! 6 < 17 \<and> 17 \<le> ceilings ! 7"
  using getBeaufortForce_first_bucket [of 17]
  by (auto simp: getBeaufortForce_def beaufortScale_def)

subsection \<open>Direction classification\<close>

lemma js_rem_nonneg:
  assumes n: "0 < n" and a: "0 \<le> a"
  shows "0 \<le> js_rem a n \<and> js_rem a n < n"
proof -
  have q: "0 \<le> a / n" using n a by simp
  have lo: "of_int \<lfloor>a / n\<rfloor> \<le> a / n" by (rule of_int_floor_le)
  have hi: "a / n < of_int \<lfloor>a / n\<rfloor> + 1" by linarith
  have "n * of_int \<lfloor>a / n\<rfloor> \<le> n * (a / n)"
    using n lo by (intro mult_left_mono) auto
  then have 1: "n * of_int \<lfloor>a / n\<rfloor> \<le> a" using n by simp
  have "n * (a / n) < n * (of_int \<lfloor>a / n\<rfloor> + 1)"
    using n hi by (intro mult_strict_left_mono) auto
  then have 2: "a < n * (of_int \<lfloor>a / n\<rfloor> + 1)" using n by simp
  show ?thesis using q 1 2 by (simp add: js_rem_def trunc_def algebra_simps)
qed

lemma js_rem_neg:
  assumes n: "0 < n" and a: "a < 0"
  shows "- n < js_rem a n \<and> js_rem a n \<le> 0"
proof -
  have "js_rem a n = - js_rem (- a) n"
    using n a by (simp add: js_rem_def trunc_def algebra_simps divide_less_0_iff)
  then show ?thesis using js_rem_nonneg [of n "- a"] n a by simp
qed

lemma normalizedDegrees_range: "0 \<le> normalizedDegrees d \<and> normalizedDegrees d < 360"
proof -
  have "- 360 < js_rem d 360 \<and> js_rem d 360 < 360"
    using js_rem_nonneg [of 360 d] js_rem_neg [of 360 d] by (cases "0 \<le> d") auto
  then have "0 \<le> js_rem d 360 + 360" by simp
  then show ?thesis
    unfolding normalizedDegrees_def
    using js_rem_nonneg [of 360 "js_rem d 360 + 360"] by simp
qed

text \<open>
  C5. Direction 0 is the sentinel in every mode: the text is the literal \<open>N/A\<close> whatever
  the configured direction type, and the icon is \<open>wi-na\<close>. Direction 360 is not the
  sentinel: its icon is the north icon, in compass mode its text is the translation of
  \<open>N\<close>, and in no mode is its text \<open>N/A\<close>.
\<close>

theorem direction_sentinel_zero_only:
  "getWindDirection cfg 0 = Plain ''N/A'' \<and> getDirectionIcon 0 = ''wi-na''
   \<and> getDirectionIcon 360 = ''wi-direction-down'' \<and> getDirectionIcon 360 = octantIcon ''N''
   \<and> (directionType cfg = ''compass'' \<longrightarrow> getWindDirection cfg 360 = Translated ''N'')
   \<and> getWindDirection cfg 360 \<noteq> Plain ''N/A''"
  by (simp add: getWindDirection_def getDirectionIcon_def directions_def octantIcon_def
      normalizedDegrees_def js_rem_def trunc_def)

theorem direction_sentinel_zero_only_witness:
  "directionType defaults = ''compass'' \<and> getWindDirection defaults 360 = Translated ''N''
   \<and> getWindDirection defaults 0 = Plain ''N/A''"
  using direction_sentinel_zero_only [of defaults]
  by (simp add: defaults_def)

text \<open>
  C6 fails on the octant boundaries. At 337.5 degrees, in compass mode, the text
  classifier names the octant N (its ranges include their lower end), while the icon
  classifier returns the icon of NW (its ranges include their upper end); at 22.5 the
  text is NE and the icon is that of N.
\<close>

theorem direction_text_icon_differ_at_boundary:
  "getWindDirection (defaults\<lparr>directionType := ''compass''\<rparr>) 337.5 = Translated ''N''
   \<and> getDirectionIcon 337.5 = octantIcon ''NW''
   \<and> octantIcon ''N'' \<noteq> octantIcon ''NW''
   \<and> getWindDirection (defaults\<lparr>directionType := ''compass''\<rparr>) 22.5 = Translated ''NE''
   \<and> getDirectionIcon 22.5 = octantIcon ''N''"
  by (simp add: getWindDirection_def getDirectionIcon_def directions_def octantIcon_def
      normalizedDegrees_def js_rem_def trunc_def)

text \<open>
  Away from the eight boundaries the two classifiers agree: for every nonzero direction
  whose normalized value is not a boundary, the icon is the one of the octant that the
  text names.
\<close>

lemma direction_text_icon_agree_off_boundary:
  assumes d: "d \<noteq> 0" and c: "directionType cfg = ''compass''"
    and nb: "normalizedDegrees d \<notin> boundaries"
  shows "\<exists>s. getWindDirection cfg d = Translated s \<and> getDirectionIcon d = octantIcon s"
proof -
  define n where "n = normalizedDegrees d"
  have r: "0 \<le> n" "n < 360"
    using normalizedDegrees_range [of d] by (simp_all add: n_def)
  have tfact: "getWindDirection cfg d = Translated (case List.find (\<lambda>d.
              (min_deg d < max_deg d \<and> n \<ge> min_deg d \<and> n < max_deg d) \<or>
              (min_deg d > max_deg d \<and> (n \<ge> min_deg d \<or> n < max_deg d))) directions
              of Some d \<Rightarrow> dir d | None \<Rightarrow> ''N'')"
    using d c by (simp add: getWindDirection_def n_def Let_def)
  have ifact: "getDirectionIcon d =
      (if n > 337.5 \<or> n \<le> 22.5 then ''wi-direction-down''
       else if n \<le> 67.5 then ''wi-direction-down-left''
       else if n \<le> 112.5 then ''wi-direction-left''
       else if n \<le> 157.5 then ''wi-direction-up-left''
       else if n \<le> 202.5 then ''wi-direction-up''
       else if n \<le> 247.5 then ''wi-direction-up-right''
       else if n \<le> 292.5 then ''wi-direction-right''
       else if n \<le> 337.5 then ''wi-direction-down-right''
       else ''wi-na'')"
    using d by (simp add: getDirectionIcon_def n_def Let_def)
  have ne: "n \<noteq> 22.5" "n \<noteq> 67.5" "n \<noteq> 112.5" "n \<noteq> 157.5" "n \<noteq> 202.5" "n \<noteq> 247.5"
       "n \<noteq> 292.5" "n \<noteq> 337.5"
    using nb by (simp_all add: boundaries_def n_def)
  consider (N) "n < 22.5 \<or> 337.5 < n" | (NE) "22.5 \<le> n" "n \<le> 67.5" | (E) "67.5 \<le> n" "n \<le> 112.5"
    | (SE) "112.5 \<le> n" "n \<le> 157.5" | (S) "157.5 \<le> n" "n \<le> 202.5" | (SW) "202.5 \<le> n" "n \<le> 247.5"
    | (W) "247.5 \<le> n" "n \<le> 292.5" | (NW) "292.5 \<le> n" "n \<le> 337.5"
    by linarith
  then show ?thesis
  proof cases
    case N
    then have "getWindDirection cfg d = Translated ''N''" "getDirectionIcon d = octantIcon ''N''"
      unfolding tfact ifact directions_def octantIcon_def by auto
    then show ?thesis by blast
  next
    case NE
    with ne have "getWindDirection cfg d = Translated ''NE''" "getDirectionIcon d = octantIcon ''NE''"
      unfolding tfact ifact directions_def octantIcon_def by simp_all
    then show ?thesis by blast
  next
    case E
    with ne have "getWindDirection cfg d = Translated ''E''" "getDirectionIcon d = octantIcon ''E''"
      unfolding tfact ifact directions_def octantIcon_def by simp_all
    then show ?thesis by blast
  next
    case SE
    with ne have "getWindDirection cfg d = Translated ''SE''" "getDirectionIcon d = octantIcon ''SE''"
      unfolding tfact ifact directions_def octantIcon_def by simp_all
    then show ?thesis by blast
  next
    case S
    with ne have "getWindDirection cfg d = Translated ''S''" "getDirectionIcon d = octantIcon ''S''"
      unfolding tfact ifact directions_def octantIcon_def by simp_all
    then show ?thesis by blast
  next
    case SW
    with ne have "getWindDirection cfg d = Translated ''SW''" "getDirectionIcon d = octantIcon ''SW''"
      unfolding tfact ifact directions_def octantIcon_def by simp_all
    then show ?thesis by blast
  next
    case W
    with ne have "getWindDirection cfg d = Translated ''W''" "getDirectionIcon d = octantIcon ''W''"
      unfolding tfact ifact directions_def octantIcon_def by simp_all
    then show ?thesis by blast
  next
    case NW
    with ne have "getWindDirection cfg d = Translated ''NW''" "getDirectionIcon d = octantIcon ''NW''"
      unfolding tfact ifact directions_def octantIcon_def by simp_all
    then show ?thesis by blast
  qed
qed

lemma direction_text_icon_agree_off_boundary_witness:
  "getWindDirection defaults 350 = Translated ''N'' \<and> getDirectionIcon 350 = octantIcon ''N''"
  using direction_text_icon_agree_off_boundary [of 350 defaults]
  by (simp add: getWindDirection_def getDirectionIcon_def directions_def octantIcon_def
      normalizedDegrees_def js_rem_def trunc_def defaults_def)

subsection \<open>Property access\<close>

lemma optProp_Some_dotProp: "optProp v k = Some x \<Longrightarrow> dotProp v k = Inr (Some x)"
  by (induction v k rule: optProp.induct) auto

lemma optIndex0_Some_dotIndex0: "optIndex0 v = Some x \<Longrightarrow> dotIndex0 v = Inr (Some x)"
  by (induction v rule: optIndex0.induct) auto

lemma truthy_Some: "truthy v \<Longrightarrow> \<exists>x. v = Some x"
  by (cases v) auto

lemma optProp_Some_arg: "optProp v k = Some x \<Longrightarrow> \<exists>y. v = Some y"
  by (cases v) auto

lemma optIndex0_Some_arg: "optIndex0 v = Some x \<Longrightarrow> \<exists>y. v = Some y"
  by (cases v) auto

lemma truthy_dotProp: "truthy v \<Longrightarrow> dotProp v k = Inr (optProp v k)"
  by (induction v rule: truthy.induct) auto

lemma isNumber_iff: "isNumber v \<longleftrightarrow> (\<exists>x. v = Some (JNum x))"
  by (induction v rule: isNumber.induct) auto

subsection \<open>The YR parser\<close>

text \<open>
  What \<^const>\<open>parseYrData\<close> computes on every document: it throws exactly when the
  details block is missing or falsy, and otherwise returns whatever the block holds under
  the two keys, a number or not, present or not. After the guard the plain accesses do
  not throw.
\<close>

lemma parseYrData_eq:
  "parseYrData data =
     (if \<not> truthy (yrDetails data) then Inl (Error ''Invalid YR data structure'')
      else Inr \<lparr>windSpeed = optProp (yrDetails data) ''wind_speed'',
                windDirection = optProp (yrDetails data) ''wind_from_direction''\<rparr>)"
proof (cases "truthy (yrDetails data)")
  case False
  then show ?thesis by (simp add: parseYrData_def yrDetails_def)
next
  case True
  then obtain details where d: "yrDetails data = Some details"
    using truthy_Some by blast
  then obtain inst where i: "optProp (optProp (optIndex0 (optProp (optProp (Some data)
          ''properties'') ''timeseries'')) ''data'') ''instant'' = Some inst"
    unfolding yrDetails_def using optProp_Some_arg by blast
  then obtain dat where da: "optProp (optIndex0 (optProp (optProp (Some data)
          ''properties'') ''timeseries'')) ''data'' = Some dat"
    using optProp_Some_arg by blast
  then obtain entry where e: "optIndex0 (optProp (optProp (Some data)
          ''properties'') ''timeseries'') = Some entry"
    using optProp_Some_arg by blast
  then obtain ts where ts: "optProp (optProp (Some data) ''properties'') ''timeseries'' = Some ts"
    using optIndex0_Some_arg by blast
  then obtain props where p: "optProp (Some data) ''properties'' = Some props"
    using optProp_Some_arg by blast
  have 1: "dotProp (Some data) ''properties'' = Inr (Some props)"
    using p by (rule optProp_Some_dotProp)
  have 2: "dotProp (Some props) ''timeseries'' = Inr (Some ts)"
    using ts p by (simp add: optProp_Some_dotProp)
  have 3: "dotIndex0 (Some ts) = Inr (Some entry)"
    using e ts by (simp add: optIndex0_Some_dotIndex0)
  have 4: "dotProp (Some entry) ''data'' = Inr (Some dat)"
    using da e by (simp add: optProp_Some_dotProp)
  have 5: "dotProp (Some dat) ''instant'' = Inr (Some inst)"
    using i da by (simp add: optProp_Some_dotProp)
  have 6: "dotProp (Some inst) ''details'' = Inr (Some details)"
    using d i by (simp add: yrDetails_def optProp_Some_dotProp)
  have t: "truthy (Some details)" using True d by simp
  have g: "truthy (optProp (optProp (optProp (optIndex0 (optProp (optProp (Some data)
          ''properties'') ''timeseries'')) ''data'') ''instant'') ''details'')"
    using True by (simp add: yrDetails_def)
  show ?thesis
    unfolding parseYrData_def using g True
    by (simp add: 1 2 3 4 5 6 d truthy_dotProp [OF t])
qed

text \<open>
  C2 fails on the code. A YR document whose details block exists and has neither
  \<^verbatim>\<open>wind_speed\<close> nor \<^verbatim>\<open>wind_from_direction\<close> is parsed without an error into an
  observation whose two fields are \<^verbatim>\<open>undefined\<close>; a block whose direction is a string
  gives an observation with that string; and for a status-200 body that parses to the
  first document the node helper sends \<^verbatim>\<open>WIND_DATA\<close> with the empty observation, not
  \<^verbatim>\<open>WIND_DATA_ERROR\<close>. The SMHI parser tests \<^verbatim>\<open>typeof ... !== 'number'\<close>; the YR parser
  has no such test.
\<close>

theorem parseYrData_partial_observation:
  "parseYrData (yr_doc [(''air_temperature'', JNum 5)])
     = Inr \<lparr>windSpeed = None, windDirection = None\<rparr>
   \<and> parseYrData (yr_doc [(''wind_speed'', JNum 5), (''wind_from_direction'', JStr ''north'')])
     = Inr \<lparr>windSpeed = Some (JNum 5), windDirection = Some (JStr ''north'')\<rparr>
   \<and> notifications (getWindData (\<lambda>body. Inr (yr_doc [(''air_temperature'', JNum 5)]))
          \<lparr>lat = 59.9, lon = 10.7, provider = ''yr'', altitude = 0\<rparr>
          (Response 200 chunks))
       = [(''WIND_DATA'', Some \<lparr>windSpeed = None, windDirection = None\<rparr>)]"
  by (simp add: parseYrData_def yr_doc_def getWindData_def parseProviderData_def)

subsection \<open>The SMHI parser\<close>

lemma hasName_eq: "p \<noteq> JNull \<Longrightarrow> hasName n p = Inr (named n p)"
  by (cases p) (auto simp: hasName_def named_def)

lemma hasName_null: "hasName n JNull = Inl (TypeError ''Cannot read properties of null'')"
  by (simp add: hasName_def)

lemma named_null [simp]: "\<not> named n JNull"
  by (simp add: named_def)

text \<open>
  The lookup by name throws when it meets a \<^verbatim>\<open>null\<close> entry before an entry of that
  name, and otherwise finds the first entry of that name.
\<close>

lemma findM_hasName:
  "findM (hasName n) ps =
     (if JNull \<in> set (takeWhile (\<lambda>p. \<not> named n p) ps)
      then Inl (TypeError ''Cannot read properties of null'')
      else Inr (List.find (named n) ps))"
proof (induction ps)
  case Nil
  show ?case by simp
next
  case (Cons p ps)
  show ?case
  proof (cases "p = JNull")
    case True
    then show ?thesis by (simp add: hasName_null)
  next
    case False
    then show ?thesis using Cons by (simp add: hasName_eq)
  qed
qed

lemma parseSmhiData_guard:
  "\<not> truthy (smhiParameters data) \<Longrightarrow>
   parseSmhiData data = Inl (Error ''Invalid SMHI data structure'')"
  by (simp add: parseSmhiData_def smhiParameters_def)

lemma parseSmhiData_chain:
  assumes "truthy (smhiParameters data)"
  shows "parseSmhiData data =
       andThen (callFind (smhiParameters data) (hasName ''ws'')) (\<lambda>ws.
       andThen (callFind (smhiParameters data) (hasName ''wd'')) (\<lambda>wd.
         let windSpeed = optIndex0 (optProp ws ''values'');
             windDirection = optIndex0 (optProp wd ''values'')
         in if \<not> isNumber windSpeed \<or> \<not> isNumber windDirection
            then Inl (Error ''Missing wind parameters'')
            else Inr \<lparr>windSpeed = windSpeed, windDirection = windDirection\<rparr>))"
proof -
  from assms obtain ps where ps: "smhiParameters data = Some ps"
    using truthy_Some by blast
  then obtain cur where cur: "optIndex0 (optProp (Some data) ''timeSeries'') = Some cur"
    unfolding smhiParameters_def using optProp_Some_arg by blast
  then obtain ts where ts: "optProp (Some data) ''timeSeries'' = Some ts"
    using optIndex0_Some_arg by blast
  have 1: "dotProp (Some data) ''timeSeries'' = Inr (Some ts)"
    using ts by (rule optProp_Some_dotProp)
  have 2: "dotIndex0 (Some ts) = Inr (Some cur)"
    using cur ts by (simp add: optIndex0_Some_dotIndex0)
  have 3: "dotProp (Some cur) ''parameters'' = Inr (Some ps)"
    using ps cur by (simp add: smhiParameters_def optProp_Some_dotProp)
  have g: "truthy (optProp (optIndex0 (optProp (Some data) ''timeSeries'')) ''parameters'')"
    using assms by (simp add: smhiParameters_def)
  show ?thesis
    unfolding parseSmhiData_def using g by (simp add: 1 2 3 ps)
qed

lemma callFind_Inr: "callFind v f = Inr r \<Longrightarrow> \<exists>ps. v = Some (JArr ps)"
  by (induction v f rule: callFind.induct) auto

lemma parseSmhiData_iff:
  "parseSmhiData data = Inr obs \<longleftrightarrow>
     (\<exists>ps a b x y. smhiParameters data = Some (JArr ps)
        \<and> JNull \<notin> set (takeWhile (\<lambda>p. \<not> named ''ws'' p) ps)
        \<and> JNull \<notin> set (takeWhile (\<lambda>p. \<not> named ''wd'' p) ps)
        \<and> List.find (named ''ws'') ps = Some a \<and> List.find (named ''wd'') ps = Some b
        \<and> firstValue a = Some (JNum x) \<and> firstValue b = Some (JNum y)
        \<and> obs = \<lparr>windSpeed = Some (JNum x), windDirection = Some (JNum y)\<rparr>)"
  (is "?L \<longleftrightarrow> ?R")
proof
  assume L: ?L
  have t: "truthy (smhiParameters data)"
    using L parseSmhiData_guard by fastforce
  note c = parseSmhiData_chain [OF t]
  from L c obtain ws where ws: "callFind (smhiParameters data) (hasName ''ws'') = Inr ws"
    by (cases "callFind (smhiParameters data) (hasName ''ws'')") auto
  from L c ws obtain wd where wd: "callFind (smhiParameters data) (hasName ''wd'') = Inr wd"
    by (cases "callFind (smhiParameters data) (hasName ''wd'')") auto
  from ws obtain ps where ps: "smhiParameters data = Some (JArr ps)"
    using callFind_Inr by blast
  from ws ps have n1: "JNull \<notin> set (takeWhile (\<lambda>p. \<not> named ''ws'' p) ps)"
      and f1: "ws = List.find (named ''ws'') ps"
    by (auto simp: findM_hasName split: if_splits)
  from wd ps have n2: "JNull \<notin> set (takeWhile (\<lambda>p. \<not> named ''wd'' p) ps)"
      and f2: "wd = List.find (named ''wd'') ps"
    by (auto simp: findM_hasName split: if_splits)
  from L c ws wd have num: "isNumber (optIndex0 (optProp ws ''values''))"
      "isNumber (optIndex0 (optProp wd ''values''))"
      and obs: "obs = \<lparr>windSpeed = optIndex0 (optProp ws ''values''),
                       windDirection = optIndex0 (optProp wd ''values'')\<rparr>"
    by (auto simp: Let_def split: if_splits)
  from num obtain x y where x: "optIndex0 (optProp ws ''values'') = Some (JNum x)"
      and y: "optIndex0 (optProp wd ''values'') = Some (JNum y)"
    by (auto simp: isNumber_iff)
  from x obtain a where a: "ws = Some a" by (cases ws) auto
  from y obtain b where b: "wd = Some b" by (cases wd) auto
  have fa: "List.find (named ''ws'') ps = Some a" using f1 a by simp
  have fb: "List.find (named ''wd'') ps = Some b" using f2 b by simp
  have xa: "firstValue a = Some (JNum x)" using x a by (simp add: firstValue_def)
  have yb: "firstValue b = Some (JNum y)" using y b by (simp add: firstValue_def)
  have "obs = \<lparr>windSpeed = Some (JNum x), windDirection = Some (JNum y)\<rparr>"
    using obs x y by simp
  with ps n1 n2 fa fb xa yb show ?R by blast
next
  assume ?R
  then obtain ps a b x y where ps: "smhiParameters data = Some (JArr ps)"
      and n1: "JNull \<notin> set (takeWhile (\<lambda>p. \<not> named ''ws'' p) ps)"
      and n2: "JNull \<notin> set (takeWhile (\<lambda>p. \<not> named ''wd'' p) ps)"
      and f1: "List.find (named ''ws'') ps = Some a"
      and f2: "List.find (named ''wd'') ps = Some b"
      and x: "firstValue a = Some (JNum x)" and y: "firstValue b = Some (JNum y)"
      and obs: "obs = \<lparr>windSpeed = Some (JNum x), windDirection = Some (JNum y)\<rparr>"
    by blast
  have t: "truthy (smhiParameters data)" using ps by simp
  show ?L
    using parseSmhiData_chain [OF t] ps n1 n2 f1 f2 x y obs
    by (simp add: findM_hasName firstValue_def)
qed

text \<open>
  C8, as stated, fails on a parameter sequence with a \<^verbatim>\<open>null\<close> entry ahead of the
  wind parameters: \<^verbatim>\<open>timeSeries[0].parameters\<close> exists and contains a parameter named
  \<open>ws\<close> and one named \<open>wd\<close> whose first values are the numbers 7.5 and 180, yet parsing
  throws, because the lookup callback reads \<^verbatim>\<open>p.name\<close> of the \<^verbatim>\<open>null\<close> entry.
\<close>

theorem parseSmhiData_null_entry_counterexample:
  "smhiParameters (smhi_doc [JNull, param ''ws'' [JNum 7.5], param ''wd'' [JNum 180]])
     = Some (JArr [JNull, param ''ws'' [JNum 7.5], param ''wd'' [JNum 180]])
   \<and> param ''ws'' [JNum 7.5] \<in> set [JNull, param ''ws'' [JNum 7.5], param ''wd'' [JNum 180]]
   \<and> named ''ws'' (param ''ws'' [JNum 7.5])
   \<and> firstValue (param ''ws'' [JNum 7.5]) = Some (JNum 7.5)
   \<and> param ''wd'' [JNum 180] \<in> set [JNull, param ''ws'' [JNum 7.5], param ''wd'' [JNum 180]]
   \<and> named ''wd'' (param ''wd'' [JNum 180])
   \<and> firstValue (param ''wd'' [JNum 180]) = Some (JNum 180)
   \<and> parseSmhiData (smhi_doc [JNull, param ''ws'' [JNum 7.5], param ''wd'' [JNum 180]])
       = Inl (TypeError ''Cannot read properties of null'')"
  by (simp add: smhiParameters_def parseSmhiData_def smhi_doc_def param_def named_def
      firstValue_def hasName_def)

text \<open>
  C8, amended. For every SMHI document, parsing succeeds with an observation \<open>obs\<close> if and
  only if \<^verbatim>\<open>timeSeries[0].parameters\<close> is an array, no \<^verbatim>\<open>null\<close> entry stands before the
  first parameter named \<open>ws\<close> nor before the first named \<open>wd\<close>, both exist, the first value
  of each is a number, and \<open>obs\<close> holds exactly these two numbers. In every other case
  parsing throws: an empty time series, an absent parameter sequence, a missing named
  parameter, a non-numeric first value, and also a parameter member that is not an array
  or a \<^verbatim>\<open>null\<close> entry ahead of a wind parameter. So the result is always either an error
  or a fully numeric observation. The two examples of the specification hold: values
  \<open>[7.5, ...]\<close> and \<open>[180, ...]\<close> give 7.5 and 180, and a document without \<open>wd\<close> fails.
\<close>

theorem parseSmhiData_first_values:
  "(parseSmhiData data = Inr obs \<longleftrightarrow>
     (\<exists>ps a b x y. smhiParameters data = Some (JArr ps)
        \<and> JNull \<notin> set (takeWhile (\<lambda>p. \<not> named ''ws'' p) ps)
        \<and> JNull \<notin> set (takeWhile (\<lambda>p. \<not> named ''wd'' p) ps)
        \<and> List.find (named ''ws'') ps = Some a \<and> List.find (named ''wd'') ps = Some b
        \<and> firstValue a = Some (JNum x) \<and> firstValue b = Some (JNum y)
        \<and> obs = \<lparr>windSpeed = Some (JNum x), windDirection = Some (JNum y)\<rparr>))
   \<and> ((\<exists>e. parseSmhiData data = Inl e) \<or> (\<exists>x y. parseSmhiData data
          = Inr \<lparr>windSpeed = Some (JNum x), windDirection = Some (JNum y)\<rparr>))
   \<and> parseSmhiData (smhi_doc [param ''t'' [JNum 3.1], param ''ws'' [JNum 7.5, JNum 8],
          param ''wd'' [JNum 180, JNum 190]])
       = Inr \<lparr>windSpeed = Some (JNum 7.5), windDirection = Some (JNum 180)\<rparr>
   \<and> (\<exists>e. parseSmhiData (smhi_doc [param ''t'' [JNum 3.1], param ''ws'' [JNum 7.5]]) = Inl e)"
proof (intro conjI)
  show "parseSmhiData data = Inr obs \<longleftrightarrow>
     (\<exists>ps a b x y. smhiParameters data = Some (JArr ps)
        \<and> JNull \<notin> set (takeWhile (\<lambda>p. \<not> named ''ws'' p) ps)
        \<and> JNull \<notin> set (takeWhile (\<lambda>p. \<not> named ''wd'' p) ps)
        \<and> List.find (named ''ws'') ps = Some a \<and> List.find (named ''wd'') ps = Some b
        \<and> firstValue a = Some (JNum x) \<and> firstValue b = Some (JNum y)
        \<and> obs = \<lparr>windSpeed = Some (JNum x), windDirection = Some (JNum y)\<rparr>)"
    by (rule parseSmhiData_iff)
  show "(\<exists>e. parseSmhiData data = Inl e) \<or> (\<exists>x y. parseSmhiData data
          = Inr \<lparr>windSpeed = Some (JNum x), windDirection = Some (JNum y)\<rparr>)"
  proof (cases "parseSmhiData data")
    case (Inl e)
    then show ?thesis by blast
  next
    case (Inr o')
    then obtain x y where "o' = \<lparr>windSpeed = Some (JNum x), windDirection = Some (JNum y)\<rparr>"
      using parseSmhiData_iff [of data o'] by blast
    with Inr show ?thesis by blast
  qed
  show "parseSmhiData (smhi_doc [param ''t'' [JNum 3.1], param ''ws'' [JNum 7.5, JNum 8],
          param ''wd'' [JNum 180, JNum 190]])
       = Inr \<lparr>windSpeed = Some (JNum 7.5), windDirection = Some (JNum 180)\<rparr>"
    by (simp add: parseSmhiData_def smhi_doc_def param_def hasName_def)
  show "\<exists>e. parseSmhiData (smhi_doc [param ''t'' [JNum 3.1], param ''ws'' [JNum 7.5]]) = Inl e"
    by (simp add: parseSmhiData_def smhi_doc_def param_def hasName_def)
qed

theorem parseSmhiData_first_values_witness:
  "parseSmhiData (smhi_doc [JStr ''junk'', param ''ws'' [JNum 7.5], param ''wd'' [JNum 180], JNull])
     = Inr \<lparr>windSpeed = Some (JNum 7.5), windDirection = Some (JNum 180)\<rparr>"
proof -
  have "smhiParameters (smhi_doc [JStr ''junk'', param ''ws'' [JNum 7.5], param ''wd'' [JNum 180], JNull])
          = Some (JArr [JStr ''junk'', param ''ws'' [JNum 7.5], param ''wd'' [JNum 180], JNull])
        \<and> JNull \<notin> set (takeWhile (\<lambda>p. \<not> named ''ws'' p)
              [JStr ''junk'', param ''ws'' [JNum 7.5], param ''wd'' [JNum 180], JNull])
        \<and> JNull \<notin> set (takeWhile (\<lambda>p. \<not> named ''wd'' p)
              [JStr ''junk'', param ''ws'' [JNum 7.5], param ''wd'' [JNum 180], JNull])
        \<and> List.find (named ''ws'')
              [JStr ''junk'', param ''ws'' [JNum 7.5], param ''wd'' [JNum 180], JNull]
            = Some (param ''ws'' [JNum 7.5])
        \<and> List.find (named ''wd'')
              [JStr ''junk'', param ''ws'' [JNum 7.5], param ''wd'' [JNum 180], JNull]
            = Some (param ''wd'' [JNum 180])
        \<and> firstValue (param ''ws'' [JNum 7.5]) = Some (JNum 7.5)
        \<and> firstValue (param ''wd'' [JNum 180]) = Some (JNum 180)"
    by (simp add: smhiParameters_def smhi_doc_def param_def named_def firstValue_def)
  then show ?thesis
    using parseSmhiData_first_values by blast
qed


subsection \<open>The SMHI URL\<close>



lemma digits_nonempty: "digits n \<noteq> []"
  by (subst digits.simps) simp







text \<open>\<^const>\<open>validateConfig\<close> clamps the coordinates into these ranges before any request
  is sent.\<close>

lemma validateConfig_range:
  "- 90 \<le> lat (validateConfig cfg) \<and> lat (validateConfig cfg) \<le> 90
   \<and> - 180 \<le> lon (validateConfig cfg) \<and> lon (validateConfig cfg) \<le> 180"
  by (simp add: validateConfig_def Let_def)

subsection \<open>Failure signals of the node helper\<close>

text \<open>
  The paths on which the node helper reports a failure once: a request error, a response
  with a status other than 200 (404 for one), a body that \<^verbatim>\<open>JSON.parse\<close> rejects, and a
  document that the provider's parser rejects. The notification is \<^verbatim>\<open>WIND_DATA_ERROR\<close>
  without payload. With a status other than 200 the effects are the same for every parser
  and every body, finished or not: the body is not parsed. A status-200 body that parses
  into an observation gives \<^verbatim>\<open>WIND_DATA\<close>.
\<close>

lemma getWindData_failure_paths:
  "notifications (getWindData JSON_parse r (RequestError msg)) = [(''WIND_DATA_ERROR'', None)]
   \<and> (statusCode \<noteq> 200 \<longrightarrow>
        notifications (getWindData JSON_parse r (Response statusCode chunks))
          = [(''WIND_DATA_ERROR'', None)]
        \<and> getWindData JSON_parse r (Response statusCode chunks)
          = getWindData JSON_parse' r (Response statusCode chunks')
        \<and> getWindData JSON_parse r (ResponseUnfinished statusCode chunks)
          = getWindData JSON_parse' r (Response statusCode chunks'))
   \<and> notifications (getWindData JSON_parse r (Response 404 chunks)) = [(''WIND_DATA_ERROR'', None)]
   \<and> (JSON_parse (concat chunks) = Inl e \<longrightarrow>
        notifications (getWindData JSON_parse r (Response 200 chunks))
          = [(''WIND_DATA_ERROR'', None)])
   \<and> (JSON_parse (concat chunks) = Inr doc
        \<and> parseProviderData doc (if provider r = [] then ''smhi'' else provider r) = Inl e \<longrightarrow>
        notifications (getWindData JSON_parse r (Response 200 chunks))
          = [(''WIND_DATA_ERROR'', None)])
   \<and> (JSON_parse (concat chunks) = Inr doc
        \<and> parseProviderData doc (if provider r = [] then ''smhi'' else provider r) = Inr obs \<longrightarrow>
        notifications (getWindData JSON_parse r (Response 200 chunks))
          = [(''WIND_DATA'', Some obs)])"
  by (simp add: getWindData_def Let_def)

text \<open>
  C9 fails on the code on two outcomes. A response with status 200 whose connection is
  lost before the body ends leaves the node helper silent: this failure is not delivered
  at all. A request that times out is reported twice, once by the \<^verbatim>\<open>timeout\<close> handler and
  once by the \<^verbatim>\<open>error\<close> handler that its \<^verbatim>\<open>abort()\<close> triggers.
\<close>

theorem getWindData_failure_not_delivered_once:
  "notifications (getWindData JSON_parse r (ResponseUnfinished 200 chunks)) = []
   \<and> notifications (getWindData JSON_parse r RequestTimeout)
       = [(''WIND_DATA_ERROR'', None), (''WIND_DATA_ERROR'', None)]"
  by (simp add: getWindData_def Let_def)

lemma notifications_at_most_two:
  "length (notifications (getWindData JSON_parse r out)) \<le> 2"
  by (cases out) (simp_all add: getWindData_def Let_def split: sum.splits)


subsection \<open>Failure clears the observation\<close>

text \<open>
  C10. In every state, receiving \<^verbatim>\<open>WIND_DATA_ERROR\<close> sets the stored observation to
  \<^verbatim>\<open>null\<close>, marks the module loaded and asks for a redraw, and \<^verbatim>\<open>getDom\<close> then gives
  the translated \<open>ERROR\<close> message; in particular a state that showed an observation
  \<open>old\<close> before does not show it after the failure.
\<close>

theorem failure_clears_observation:
  "windData (fst (socketNotificationReceived cfg ''WIND_DATA_ERROR'' payload s)) = None
   \<and> loaded (fst (socketNotificationReceived cfg ''WIND_DATA_ERROR'' payload s))
   \<and> getDom cfg (fst (socketNotificationReceived cfg ''WIND_DATA_ERROR'' payload s))
        = Message ''dimmed light small'' (Translated ''ERROR'')
   \<and> UpdateDom (animationSpeed cfg)
        \<in> set (snd (socketNotificationReceived cfg ''WIND_DATA_ERROR'' payload s))
   \<and> getDom cfg (fst (socketNotificationReceived cfg ''WIND_DATA_ERROR'' payload
         (s\<lparr>loaded := True, windData := Some old\<rparr>))) \<noteq> WindDisplay c old
   \<and> getDom cfg (s\<lparr>loaded := True, windData := Some old\<rparr>)
        = WindDisplay (''small wind-'' @ layout cfg) old"
  by (simp add: socketNotificationReceived_def getDom_def Let_def)

subsection \<open>The periodic timer\<close>

text \<open>
  Once the counter has reached \<open>maxRetries\<close> with no request pending and no notification
  on its way, nothing changes the module any more: ticks and retry firings send nothing,
  and nothing can arrive. With failure notifications still on their way the counter only
  grows, and still no request is sent.
\<close>

lemma run_stuck:
  assumes "maxRetries cfg \<le> retryCount (st w)" and "inflight w = 0" and "queued w = []"
  shows "st (run P cfg es w) = st w \<and> inflight (run P cfg es w) = 0"
  using assms
proof (induction es arbitrary: w)
  case Nil
  then show ?case by simp
next
  case (Cons e es)
  have "st (step P cfg e w) = st w \<and> inflight (step P cfg e w) = 0
      \<and> queued (step P cfg e w) = []"
    using Cons.prems by (cases e) (simp_all add: getData_def)
  then show ?case
    using Cons.IH [of "step P cfg e w"] Cons.prems by simp
qed

lemma step_stuck_errors:
  assumes "maxRetries cfg \<le> retryCount (st w)" and "inflight w = 0"
    and "\<forall>n\<in>set (queued w). fst n = ''WIND_DATA_ERROR''"
  shows "maxRetries cfg \<le> retryCount (st (step P cfg e w)) \<and> inflight (step P cfg e w) = 0
      \<and> (\<forall>n\<in>set (queued (step P cfg e w)). fst n = ''WIND_DATA_ERROR'')"
proof (cases e)
  case Tick
  then show ?thesis using assms by (simp add: getData_def)
next
  case RetryFire
  then show ?thesis using assms by (simp add: getData_def)
next
  case (Finish out)
  then show ?thesis using assms by simp
next
  case Deliver
  show ?thesis
  proof (cases "queued w")
    case Nil
    then show ?thesis using Deliver assms by simp
  next
    case (Cons n rest)
    obtain name payload where n: "n = (name, payload)" by (cases n)
    have name: "name = ''WIND_DATA_ERROR''" using assms(3) Cons n by simp
    show ?thesis
      using Deliver Cons n name assms
      by (simp add: socketNotificationReceived_def Let_def)
  qed
qed

lemma run_stuck_errors:
  assumes "maxRetries cfg \<le> retryCount (st w)" and "inflight w = 0"
    and "\<forall>n\<in>set (queued w). fst n = ''WIND_DATA_ERROR''"
  shows "inflight (run P cfg es w) = 0 \<and> maxRetries cfg \<le> retryCount (st (run P cfg es w))"
  using assms
proof (induction es arbitrary: w)
  case Nil
  then show ?case by simp
next
  case (Cons e es)
  show ?case
    using Cons.IH [of "step P cfg e w"] step_stuck_errors [OF Cons.prems, of P e] by simp
qed

text \<open>The default configuration after three failed attempts in a row, and after two failed
  attempts and a timed-out third of whose two notifications one has been received.\<close>

lemma three_failures:
  "run rejectAll defaults threeFailures (start defaults)
     = \<lparr>st = \<lparr>loaded = True, windData = None, retryCount = 3\<rparr>, inflight = 0, queued = [],
        timers = 0\<rparr>"
  by (simp add: threeFailures_def failed_def start_def getData_def initial_state_def defaults_def
      getWindData_def socketNotificationReceived_def Let_def)

lemma timeout_in_queue:
  "run rejectAll defaults
       (failed @ [RetryFire] @ failed @ [RetryFire] @ [Finish RequestTimeout, Deliver])
       (start defaults)
     = \<lparr>st = \<lparr>loaded = True, windData = None, retryCount = 3\<rparr>, inflight = 0,
        queued = [(''WIND_DATA_ERROR'', None)], timers = 0\<rparr>"
  by (simp add: failed_def start_def getData_def initial_state_def defaults_def
      getWindData_def socketNotificationReceived_def Let_def)

text \<open>
  C1, as stated, fails on the code: after \<open>maxRetries\<close> consecutive failures the next
  periodic tick calls \<^verbatim>\<open>getData\<close>, whose guard \<^verbatim>\<open>retryCount >= maxRetries\<close> returns
  before the request is sent; the tick leaves the world as it is.
\<close>

theorem tick_after_maxRetries_counterexample:
  "retryCount (st (run rejectAll defaults threeFailures (start defaults))) = maxRetries defaults
   \<and> getData defaults (st (run rejectAll defaults threeFailures (start defaults))) = []
   \<and> step rejectAll defaults Tick (run rejectAll defaults threeFailures (start defaults))
      = run rejectAll defaults threeFailures (start defaults)"
  by (simp only: three_failures) (simp add: getData_def defaults_def)

text \<open>
  C1, amended. A firing of the periodic timer sends one request, carrying the provider,
  latitude, longitude and altitude of the configuration, exactly when
  \<open>retryCount < maxRetries\<close>; otherwise it sends nothing. It never changes the module's
  state. When \<open>retryCount\<close> has reached \<open>maxRetries\<close>, no request is pending and no
  notification is on its way, no sequence of later events sends a request or changes the
  state; and when only failure notifications are still on their way, no sequence of later
  events sends a request or brings \<open>retryCount\<close> below \<open>maxRetries\<close>.
\<close>

theorem tick_requests_only_below_maxRetries:
  "inflight (step JSON_parse cfg Tick w)
      = (if retryCount (st w) < maxRetries cfg then Suc (inflight w) else inflight w)
   \<and> st (step JSON_parse cfg Tick w) = st w
   \<and> getData cfg s
      = (if retryCount s < maxRetries cfg
         then [SendGetWindData \<lparr>lat = lat cfg, lon = lon cfg, provider = provider cfg,
                                  altitude = altitude cfg\<rparr>]
         else [])
   \<and> (maxRetries cfg \<le> retryCount (st w) \<and> inflight w = 0 \<and> queued w = [] \<longrightarrow>
        st (run JSON_parse cfg es w) = st w \<and> inflight (run JSON_parse cfg es w) = 0)
   \<and> (maxRetries cfg \<le> retryCount (st w) \<and> inflight w = 0
        \<and> (\<forall>n\<in>set (queued w). fst n = ''WIND_DATA_ERROR'') \<longrightarrow>
        inflight (run JSON_parse cfg es w) = 0
        \<and> maxRetries cfg \<le> retryCount (st (run JSON_parse cfg es w)))"
  using run_stuck [of cfg w JSON_parse es] run_stuck_errors [of cfg w JSON_parse es]
  by (simp add: getData_def)

theorem tick_requests_only_below_maxRetries_witness:
  "maxRetries defaults \<le> retryCount (st (run rejectAll defaults threeFailures (start defaults)))
   \<and> inflight (run rejectAll defaults threeFailures (start defaults)) = 0
   \<and> queued (run rejectAll defaults threeFailures (start defaults)) = []
   \<and> inflight (run rejectAll defaults [Tick, RetryFire, Tick]
        (run rejectAll defaults threeFailures (start defaults))) = 0
   \<and> queued (run rejectAll defaults
        (failed @ [RetryFire] @ failed @ [RetryFire] @ [Finish RequestTimeout, Deliver])
        (start defaults)) = [(''WIND_DATA_ERROR'', None)]
   \<and> inflight (run rejectAll defaults [Tick, Deliver, Tick] (run rejectAll defaults
        (failed @ [RetryFire] @ failed @ [RetryFire] @ [Finish RequestTimeout, Deliver])
        (start defaults))) = 0"
proof -
  let ?w = "run rejectAll defaults threeFailures (start defaults)"
  let ?v = "run rejectAll defaults
        (failed @ [RetryFire] @ failed @ [RetryFire] @ [Finish RequestTimeout, Deliver])
        (start defaults)"
  have 1: "maxRetries defaults \<le> retryCount (st ?w)"
    by (simp only: three_failures) (simp add: defaults_def)
  have 2: "inflight ?w = 0"
    by (simp only: three_failures) simp
  have 3: "queued ?w = []"
    by (simp only: three_failures) simp
  have 4: "maxRetries defaults \<le> retryCount (st ?v)"
    by (simp only: timeout_in_queue) (simp add: defaults_def)
  have 5: "inflight ?v = 0"
    by (simp only: timeout_in_queue) simp
  have 6: "queued ?v = [(''WIND_DATA_ERROR'', None)]"
    by (simp only: timeout_in_queue) simp
  have 7: "\<forall>n\<in>set (queued ?v). fst n = ''WIND_DATA_ERROR''"
    unfolding 6 by simp
  from 1 2 3 tick_requests_only_below_maxRetries [where cfg = defaults and w = ?w
      and es = "[Tick, RetryFire, Tick]" and JSON_parse = rejectAll]
  have a: "inflight (run rejectAll defaults [Tick, RetryFire, Tick] ?w) = 0" by blast
  from 4 5 7 tick_requests_only_below_maxRetries [where cfg = defaults and w = ?v
      and es = "[Tick, Deliver, Tick]" and JSON_parse = rejectAll]
  have b: "inflight (run rejectAll defaults [Tick, Deliver, Tick] ?v) = 0" by blast
  from 1 2 3 6 a b show ?thesis by blast
qed

subsection \<open>The retry counter\<close>

text \<open>
  The bound is proved once for a weight \<open>c\<close>: the largest number of notifications that the
  end of a request adds in the run. A pending request counts \<open>c\<close>, a queued notification 1.
\<close>

lemma step_bound:
  assumes M: "0 \<le> maxRetries cfg"
    and before: "c * inflight w + length (queued w) \<le> L"
    and after: "c * inflight (step P cfg e w) + length (queued (step P cfg e w)) \<le> L"
    and added: "\<And>out. e = Finish out \<Longrightarrow> length (notifications (getWindData P
          \<lparr>lat = lat cfg, lon = lon cfg, provider = provider cfg, altitude = altitude cfg\<rparr> out)) \<le> c"
    and nonneg: "0 \<le> retryCount (st w)"
    and inv: "retryCount (st w) + int (c * inflight w + length (queued w))
                \<le> maxRetries cfg + int L - 1"
  shows "0 \<le> retryCount (st (step P cfg e w))
     \<and> retryCount (st (step P cfg e w))
          + int (c * inflight (step P cfg e w) + length (queued (step P cfg e w)))
         \<le> maxRetries cfg + int L - 1"
proof (cases e)
  case Tick
  show ?thesis
  proof (cases "maxRetries cfg \<le> retryCount (st w)")
    case True
    then show ?thesis using Tick nonneg inv by (simp add: getData_def)
  next
    case False
    have rc: "retryCount (st (step P cfg e w)) = retryCount (st w)"
      using Tick by (simp add: getData_def)
    have al: "int (c * inflight (step P cfg e w) + length (queued (step P cfg e w))) \<le> int L"
      using after by (simp only: of_nat_le_iff)
    show ?thesis unfolding rc using False al nonneg by (intro conjI; linarith)
  qed
next
  case RetryFire
  show ?thesis
  proof (cases "timers w = 0 \<or> maxRetries cfg \<le> retryCount (st w)")
    case True
    then show ?thesis using RetryFire nonneg inv by (auto simp: getData_def)
  next
    case False
    have rc: "retryCount (st (step P cfg e w)) = retryCount (st w)"
      using RetryFire by (simp add: getData_def)
    have al: "int (c * inflight (step P cfg e w) + length (queued (step P cfg e w))) \<le> int L"
      using after by (simp only: of_nat_le_iff)
    show ?thesis unfolding rc using False al nonneg by (intro conjI; linarith)
  qed
next
  case (Finish out)
  show ?thesis
  proof (cases "inflight w = 0")
    case True
    then show ?thesis using Finish nonneg inv by simp
  next
    case False
    then obtain k where k: "inflight w = Suc k" by (cases "inflight w") auto
    have "length (notifications (getWindData P
          \<lparr>lat = lat cfg, lon = lon cfg, provider = provider cfg, altitude = altitude cfg\<rparr> out)) \<le> c"
      using added Finish by blast
    then show ?thesis using Finish k nonneg inv by (simp add: algebra_simps)
  qed
next
  case Deliver
  show ?thesis
  proof (cases "queued w")
    case Nil
    then show ?thesis using Deliver nonneg inv by simp
  next
    case (Cons n rest)
    obtain name payload where n: "n = (name, payload)" by (cases n)
    show ?thesis
      using Deliver Cons n M before nonneg inv
      by (auto simp: socketNotificationReceived_def Let_def)
  qed
qed

lemma visited_bound:
  assumes M: "0 \<le> maxRetries cfg"
    and L: "\<forall>v\<in>set (visited P cfg es w). c * inflight v + length (queued v) \<le> L"
    and added: "\<forall>out. Finish out \<in> set es \<longrightarrow> length (notifications (getWindData P
          \<lparr>lat = lat cfg, lon = lon cfg, provider = provider cfg, altitude = altitude cfg\<rparr> out)) \<le> c"
    and nonneg: "0 \<le> retryCount (st w)"
    and inv: "retryCount (st w) + int (c * inflight w + length (queued w))
                \<le> maxRetries cfg + int L - 1"
  shows "\<forall>v\<in>set (visited P cfg es w).
           retryCount (st v) + int (c * inflight v + length (queued v))
             \<le> maxRetries cfg + int L - 1"
  using L added nonneg inv
proof (induction es arbitrary: w)
  case Nil
  then show ?case by simp
next
  case (Cons e es)
  have b: "c * inflight w + length (queued w) \<le> L"
    using Cons.prems(1) by simp
  have a: "c * inflight (step P cfg e w) + length (queued (step P cfg e w)) \<le> L"
  proof -
    have "step P cfg e w \<in> set (visited P cfg (e # es) w)"
      by (cases es) simp_all
    then show ?thesis using Cons.prems(1) by blast
  qed
  have ad: "\<And>out. e = Finish out \<Longrightarrow> length (notifications (getWindData P
          \<lparr>lat = lat cfg, lon = lon cfg, provider = provider cfg, altitude = altitude cfg\<rparr> out)) \<le> c"
    using Cons.prems(2) by simp
  have s: "0 \<le> retryCount (st (step P cfg e w))
     \<and> retryCount (st (step P cfg e w))
          + int (c * inflight (step P cfg e w) + length (queued (step P cfg e w)))
         \<le> maxRetries cfg + int L - 1"
    using step_bound [OF M b a ad Cons.prems(3) Cons.prems(4)] .
  have "\<forall>v\<in>set (visited P cfg es (step P cfg e w)). c * inflight v + length (queued v) \<le> L"
    using Cons.prems(1) by simp
  moreover have "\<forall>out. Finish out \<in> set es \<longrightarrow> length (notifications (getWindData P
          \<lparr>lat = lat cfg, lon = lon cfg, provider = provider cfg, altitude = altitude cfg\<rparr> out)) \<le> c"
    using Cons.prems(2) by simp
  ultimately have "\<forall>v\<in>set (visited P cfg es (step P cfg e w)).
           retryCount (st v) + int (c * inflight v + length (queued v))
             \<le> maxRetries cfg + int L - 1"
    using Cons.IH s by blast
  then show ?case using Cons.prems(4) by simp
qed

lemma start_bound:
  assumes "0 \<le> maxRetries cfg" and "1 \<le> L"
    and "c * inflight (start cfg) + length (queued (start cfg)) \<le> L"
  shows "0 \<le> retryCount (st (start cfg))
     \<and> retryCount (st (start cfg)) + int (c * inflight (start cfg) + length (queued (start cfg)))
         \<le> maxRetries cfg + int L - 1"
  using assms by (auto simp: start_def getData_def initial_state_def split: if_splits)

lemma start_visited: "start cfg \<in> set (visited P cfg es (start cfg))"
  by (cases es) simp_all






text \<open>
  A timed-out request is reported twice and counted twice, so the counter passes
  \<open>maxRetries\<close> even when requests never overlap: two plain failures and a timeout of the
  third request leave \<open>retryCount = 4\<close>. With timeouts in a run a pending request counts 2
  in the bound.
\<close>

lemma timeout_counts_twice:
  "run rejectAll defaults timedOutThird (start defaults)
     = \<lparr>st = \<lparr>loaded = True, windData = None, retryCount = 4\<rparr>, inflight = 0, queued = [],
        timers = 0\<rparr>
   \<and> list_all (\<lambda>v. inflight v \<le> 1) (visited rejectAll defaults timedOutThird (start defaults))"
  by (simp add: timedOutThird_def failed_def start_def getData_def initial_state_def defaults_def
      getWindData_def socketNotificationReceived_def Let_def)

lemma retryCount_bound_with_timeouts:
  assumes "0 \<le> maxRetries cfg" and "1 \<le> L"
    and "\<forall>v\<in>set (visited P cfg es (start cfg)). 2 * inflight v + length (queued v) \<le> L"
  shows "\<forall>v\<in>set (visited P cfg es (start cfg)).
           retryCount (st v) + int (2 * inflight v + length (queued v))
             \<le> maxRetries cfg + int L - 1"
proof -
  have s: "2 * inflight (start cfg) + length (queued (start cfg)) \<le> L"
    using assms(3) start_visited by blast
  show ?thesis
    using visited_bound [of cfg P es "start cfg" 2 L] start_bound [OF assms(1) assms(2) s]
      assms notifications_at_most_two
    by blast
qed

end
